theory Spec2Isabelle
  imports Main
begin

section \<open>Go notions shared by both packages\<close>

text \<open>
  A Go \<^verbatim>\<open>error\<close> value. The three package-level error variables of the repository are
  constructors of their own; every error made elsewhere (directory, network, encoder,
  provider, template execution) is an \<open>ExternalError\<close> carrying its text. A \<^verbatim>\<open>nil\<close>
  error is \<open>None\<close> of \<open>error option\<close>.
\<close>

datatype error =
    ErrMailServiceNotFound
  | ErrMailClientNotInitialized
  | ErrMailerNotInitialized
  | ExternalError string

text \<open>
  How a call ends: it returns a value, it panics (a nil dereference), or it never
  returns (a send on an unbuffered channel that no goroutine receives from).
\<close>

datatype 'a outcome = Returns 'a | Panics | BlocksForever

section \<open>Package main: the dispatch engine (src/unnamed/part\_001)\<close>

text \<open>\<^verbatim>\<open>type mailStruct struct { Sender; Message; Subject; Recipient string }\<close>, in this order.\<close>

record mailStruct =
  Sender :: string
  Message :: string
  Subject :: string
  Recipient :: string

text \<open>
  The provider's message, as \<^verbatim>\<open>mailgun.NewMessage(from, subject, text string, to ...string)\<close>
  builds it, and the provider's \<^verbatim>\<open>Send(message) (response, id string, err error)\<close>. The
  provider is outside the repository: it is a parameter of the model.
\<close>

record mg_message =
  msg_from :: string
  msg_subject :: string
  msg_text :: string
  msg_to :: "string list"

definition NewMessage :: "string \<Rightarrow> string \<Rightarrow> string \<Rightarrow> string list \<Rightarrow> mg_message" where
  "NewMessage from' subject text' to' =
     \<lparr>msg_from = from', msg_subject = subject, msg_text = text', msg_to = to'\<rparr>"

type_synonym provider = "mg_message \<Rightarrow> string \<times> string \<times> error option"

text \<open>What the logger is given, one constructor per logging statement of part\_001.\<close>

datatype log_entry =
    DebugWaiting
  | DebugReceiving mailStruct
  | ErrorLn error
  | InfoSendingEmail string string string
  | InfoClosing
  | InfoNatsReceiving
  | InfoSendingMail mailStruct

text \<open>
  The state outside the \<^verbatim>\<open>MailGunMailer\<close> value: the worker goroutine started by
  \<^verbatim>\<open>NewMailGun\<close> (blocked in its \<^verbatim>\<open>select\<close>, or returned), the provider \<^verbatim>\<open>mg\<close> its closure
  captured, whether \<^verbatim>\<open>ctx.Done()\<close> is closed, the calls of \<^verbatim>\<open>mg.Send\<close> made so far (oldest
  first) and the log.
\<close>

datatype goroutine = Waiting | Terminated

record world =
  worker :: goroutine
  captured_mg :: provider
  ctx_done :: bool
  sent :: "mg_message list"
  logs :: "log_entry list"

datatype chan = senderChan

text \<open>
  \<^verbatim>\<open>type MailGunMailer struct { mailgun.Mailgun; sendChannel chan mailStruct; sender string;
  cancel context.CancelFunc }\<close>. A nil channel and a nil \<^verbatim>\<open>cancel\<close> are \<open>None\<close>.
\<close>

record MailGunMailer =
  Mailgun :: provider
  sendChannel :: "chan option"
  sender :: string
  cancel :: "(world \<Rightarrow> world) option"

text \<open>
  \<^verbatim>\<open>NewMailGun\<close>: the channel is made with capacity 0, the worker goroutine is started and
  reaches its \<^verbatim>\<open>select\<close> (after logging that it waits). \<^verbatim>\<open>mailgun.NewMailgun\<close> is the
  parameter \<open>NewMailgun\<close>.
\<close>

definition NewMailGun ::
  "(string \<Rightarrow> string \<Rightarrow> string \<Rightarrow> provider) \<Rightarrow> string \<Rightarrow> string \<Rightarrow> string \<Rightarrow> MailGunMailer \<times> world" where
  "NewMailGun NewMailgun domain apiKey sndr =
     (let mg = NewMailgun domain apiKey [];
          mailer = \<lparr>Mailgun = mg, sendChannel = Some senderChan, sender = sndr,
                    cancel = Some (\<lambda>w. w\<lparr>ctx_done := True\<rparr>)\<rparr>
      in (mailer,
          \<lparr>worker = Waiting, captured_mg = mg, ctx_done = False, sent = [], logs = [DebugWaiting]\<rparr>))"

text \<open>
  The worker's \<^verbatim>\<open>case m := <-senderChan\<close>: one \<^verbatim>\<open>mg.Send\<close> of
  \<^verbatim>\<open>NewMessage(m.Sender, m.Subject, m.Message, m.Recipient)\<close>, the error only logged, then
  the next iteration of the loop logs that it waits and blocks in the \<^verbatim>\<open>select\<close> again.
\<close>

definition worker_receive :: "mailStruct \<Rightarrow> world \<Rightarrow> world" where
  "worker_receive m w =
     (let message = NewMessage (mailStruct.Sender m) (mailStruct.Subject m)
                      (mailStruct.Message m) [mailStruct.Recipient m];
          (response, id', err) = captured_mg w message
      in w\<lparr>sent := sent w @ [message],
           logs := logs w @ [DebugReceiving m]
                     @ (case err of Some e \<Rightarrow> [ErrorLn e] | None \<Rightarrow> [])
                     @ [InfoSendingEmail (mailStruct.Recipient m) response id', DebugWaiting]\<rparr>)"

text \<open>
  The worker's \<^verbatim>\<open>case <-ctx.Done()\<close>: once the context is cancelled the worker, parked in
  its \<^verbatim>\<open>select\<close>, is woken on it, logs and returns.
\<close>

definition worker_done :: "world \<Rightarrow> world" where
  "worker_done w =
     (if worker w = Waiting \<and> ctx_done w
      then w\<lparr>worker := Terminated, logs := logs w @ [InfoClosing]\<rparr> else w)"

text \<open>
  \<^verbatim>\<open>MailGunMailer.SendMail\<close>. The method has no \<^verbatim>\<open>select\<close> of its own: after the nil check
  it is the bare send \<^verbatim>\<open>mgm.sendChannel <- mailStruct{...}\<close> on the unbuffered channel, which
  completes when the worker receives. While the context is not cancelled the worker,
  parked in its \<^verbatim>\<open>select\<close>, receives. Once \<^verbatim>\<open>Close\<close> has cancelled the context the parked
  worker has been woken on \<^verbatim>\<open>ctx.Done()\<close> and returns; nobody receives, and the send never
  completes. The struct literal is positional in the source:
  \<^verbatim>\<open>mailStruct{mgm.sender, message, subject, recipient}\<close>. The worker's handling of
  the message it received is part of the same step: it runs without another
  synchronisation until the worker is back in its \<^verbatim>\<open>select\<close>, so no other submission
  is received in between (the provider's \<^verbatim>\<open>Send\<close> is taken to return, and a call of
  \<^verbatim>\<open>Close\<close> falls before or after a submission, not inside it).
\<close>

definition MailGunMailer_SendMail ::
  "MailGunMailer \<Rightarrow> string \<Rightarrow> string \<Rightarrow> string \<Rightarrow> world \<Rightarrow> error option outcome \<times> world" where
  "MailGunMailer_SendMail mgm subject message recipient w =
     (if sendChannel mgm = None then (Returns (Some ErrMailerNotInitialized), w)
      else if worker w = Waiting \<and> \<not> ctx_done w
      then (Returns None,
            worker_receive \<lparr>Sender = sender mgm, Message = message, Subject = subject,
                            Recipient = recipient\<rparr> w)
      else (BlocksForever, worker_done w))"




text \<open>
  A producer that submits a list of \<open>(subject, message, recipient)\<close> triples one after
  the other, each with \<^verbatim>\<open>SendMail\<close>; the results are kept in order.
\<close>

fun submit_all ::
  "MailGunMailer \<Rightarrow> (string \<times> string \<times> string) list \<Rightarrow> world \<Rightarrow> error option outcome list \<times> world" where
  "submit_all mgm [] w = ([], w)"
| "submit_all mgm ((subject, message, recipient) # rest) w =
     (let (r, w1) = MailGunMailer_SendMail mgm subject message recipient w;
          (rs, w2) = submit_all mgm rest w1
      in (r # rs, w2))"

section \<open>Package client (src/client/client.go, first listing)\<close>

definition MailServiceType :: string where
  "MailServiceType = ''mail''"

definition HttpMIMEBodyType :: string where
  "HttpMIMEBodyType = ''application/json''"

record Email =
  Recipient :: string
  Subject :: string
  Message :: string

subsection \<open>The message composer\<close>

text \<open>
  A parsed \<^verbatim>\<open>text/template\<close> template, for the two kinds of node the repository's
  templates have: literal text, and the field action \<^verbatim>\<open>{{.Name}}\<close>. The library is
  outside the repository. Its \<^verbatim>\<open>Execute\<close> walks the nodes in order and writes each one's
  output to the writer at once; when an action fails, execution stops and returns the
  error, and what was written stays in the writer. How a field of the data (an
  \<^verbatim>\<open>interface{}\<close>, here any type \<open>'d\<close>) is looked up and printed is the parameter
  \<open>ev\<close>: the printed text, or the error.
\<close>

datatype node = TextNode string | FieldNode string

fun Execute ::
  "(string \<Rightarrow> 'd \<Rightarrow> error + string) \<Rightarrow> node list \<Rightarrow> string \<Rightarrow> 'd \<Rightarrow> string \<times> error option" where
  "Execute ev [] buf data = (buf, None)"
| "Execute ev (TextNode s # ns) buf data = Execute ev ns (buf @ s) data"
| "Execute ev (FieldNode f # ns) buf data =
     (case ev f data of
        Inl e \<Rightarrow> (buf, Some e)
      | Inr s \<Rightarrow> Execute ev ns (buf @ s) data)"

text \<open>
  \<^verbatim>\<open>type SuricataMessageComposer struct { SubjectTemplate, MessageTemplate
  *template.Template }\<close>; a nil pointer is \<open>None\<close>, and \<^verbatim>\<open>Execute\<close> on it dereferences nil.
  Both methods start from an empty \<^verbatim>\<open>bytes.Buffer\<close>, drop the error of \<^verbatim>\<open>Execute\<close> and
  return the buffer's content.
\<close>

record SuricataMessageComposer =
  SubjectTemplate :: "node list option"
  MessageTemplate :: "node list option"

definition ComposeSubject ::
  "(string \<Rightarrow> 'd \<Rightarrow> error + string) \<Rightarrow> SuricataMessageComposer \<Rightarrow> 'd \<Rightarrow> string outcome" where
  "ComposeSubject ev mc data =
     (case SubjectTemplate mc of
        None \<Rightarrow> Panics
      | Some t \<Rightarrow> (let (subject, _) = Execute ev t [] data in Returns subject))"

definition ComposeMessage ::
  "(string \<Rightarrow> 'd \<Rightarrow> error + string) \<Rightarrow> SuricataMessageComposer \<Rightarrow> 'd \<Rightarrow> string outcome" where
  "ComposeMessage ev mc data =
     (case MessageTemplate mc of
        None \<Rightarrow> Panics
      | Some t \<Rightarrow> (let (subject, _) = Execute ev t [] data in Returns subject))"

definition NewMailComposer :: "node list option \<Rightarrow> node list option \<Rightarrow> SuricataMessageComposer" where
  "NewMailComposer sbjTmp msgTmp = \<lparr>SubjectTemplate = sbjTmp, MessageTemplate = msgTmp\<rparr>"

subsection \<open>The REST client\<close>

text \<open>
  \<^verbatim>\<open>discovery.RegistryClient\<close>: the client only calls \<^verbatim>\<open>ServicesByName(name) ([]string,
  error)\<close>, so the directory is that function. A nil interface is \<open>None\<close>.
\<close>

type_synonym RegistryClient = "string \<Rightarrow> string list \<times> error option"

record SuricataMailClient =
  discoveryClient :: "RegistryClient option"

definition NewSuricataMailClient :: "RegistryClient option \<Rightarrow> SuricataMailClient" where
  "NewSuricataMailClient disc = \<lparr>discoveryClient = disc\<rparr>"

definition IsConnected :: "'a SuricataMailClient_scheme \<Rightarrow> bool \<times> error option" where
  "IsConnected client =
     (case discoveryClient client of
        None \<Rightarrow> (False, Some ErrMailClientNotInitialized)
      | Some ServicesByName \<Rightarrow>
          (let (services, err) = ServicesByName MailServiceType
           in if err \<noteq> None then (False, err)
              else if length services = 0 then (False, None)
              else (True, None)))"

text \<open>
  \<^verbatim>\<open>resolveUrl\<close> has no nil check: with a nil directory the method call panics.
  \<^verbatim>\<open>fmt.Sprintf("http://%s", mailURL[0])\<close> prepends the scheme to the first address.
\<close>

definition resolveUrl :: "'a SuricataMailClient_scheme \<Rightarrow> (string \<times> error option) outcome" where
  "resolveUrl client =
     (case discoveryClient client of
        None \<Rightarrow> Panics
      | Some ServicesByName \<Rightarrow>
          (let (mailURL, err) = ServicesByName MailServiceType
           in if err \<noteq> None then Returns ([], err)
              else if length mailURL = 0 then Returns ([], Some ErrMailServiceNotFound)
              else Returns (''http://'' @ mailURL ! 0, None)))"

text \<open>
  The request \<^verbatim>\<open>http.Post(url, contentType, body)\<close> sends. The body is kept as the JSON
  document the encoder produced, not as its bytes.
\<close>

datatype json =
    JNull
  | JBool bool
  | JNumber int
  | JString string
  | JArray "json list"
  | JObject "(string \<times> json) list"

record http_request =
  req_url :: string
  req_contentType :: string
  req_body :: json

text \<open>
  \<^verbatim>\<open>SuricataMailClient.SendMail\<close> (client.go, lines 99 to 128). \<^verbatim>\<open>json.Marshal\<close> and
  \<^verbatim>\<open>http.Post\<close> are the parameters \<open>Marshal\<close> and \<open>Post\<close>. The result is the returned error
  with the calls of \<^verbatim>\<open>http.Post\<close> that were made. In the branch for a failed \<^verbatim>\<open>json.Marshal\<close> the
  source returns \<^verbatim>\<open>err\<close>, the variable of the resolution, not \<^verbatim>\<open>jsonError\<close>.
\<close>

definition SuricataMailClient_SendMail ::
  "(Email \<Rightarrow> error + json) \<Rightarrow> (http_request \<Rightarrow> error option) \<Rightarrow> 'a SuricataMailClient_scheme
     \<Rightarrow> string \<Rightarrow> string \<Rightarrow> string \<Rightarrow> (error option \<times> http_request list) outcome" where
  "SuricataMailClient_SendMail Marshal Post client recipient subject message =
     (case resolveUrl client of
        Panics \<Rightarrow> Panics
      | BlocksForever \<Rightarrow> BlocksForever
      | Returns (serviceURL, err) \<Rightarrow>
          if err \<noteq> None then Returns (err, [])
          else
            (let eMsg = \<lparr>Email.Recipient = recipient, Email.Subject = subject,
                         Email.Message = message\<rparr>
             in case Marshal eMsg of
                  Inl jsonError \<Rightarrow> Returns (err, [])
                | Inr out \<Rightarrow>
                    (let req = \<lparr>req_url = serviceURL, req_contentType = HttpMIMEBodyType, req_body = out\<rparr>;
                         postErr = Post req
                     in if postErr \<noteq> None then Returns (postErr, [req])
                        else Returns (None, [req]))))"

subsection \<open>The NATS client\<close>

text \<open>
  \<^verbatim>\<open>NatsMailClient\<close>: the connection's status and the encoded connection's
  \<^verbatim>\<open>Publish(subject, v) error\<close>. \<^verbatim>\<open>SendMail\<close> returns the error of the one call of
  \<^verbatim>\<open>Publish\<close> it makes; the result is that error with the calls of \<^verbatim>\<open>Publish\<close> that were
  made, each with its topic and value (whether the connection delivered them is the
  connection's matter).
\<close>

datatype nats_Status = DISCONNECTED | CONNECTED | CLOSED | RECONNECTING | CONNECTING

record NatsMailClient =
  conn :: nats_Status
  encodedConn :: "string \<Rightarrow> Email \<Rightarrow> error option"

definition NatsMailClient_IsConnected :: "NatsMailClient \<Rightarrow> bool \<times> error option" where
  "NatsMailClient_IsConnected client = (let status = (conn client = CONNECTED) in (status, None))"

definition NatsMailClient_SendMail ::
  "NatsMailClient \<Rightarrow> string \<Rightarrow> string \<Rightarrow> string \<Rightarrow> error option \<times> (string \<times> Email) list" where
  "NatsMailClient_SendMail client recipient subject message =
     (let eMsg = \<lparr>Email.Recipient = recipient, Email.Subject = subject, Email.Message = message\<rparr>;
          err = encodedConn client MailServiceType eMsg
      in (err, [(MailServiceType, eMsg)]))"

subsection \<open>The two earlier revisions of the REST client\<close>

text \<open>
  In src/unnamed/part\_000 and in the second listing of client.go the client also holds
  a composer, which \<^verbatim>\<open>NewSuricataMailClient\<close> builds from two fixed templates.
\<close>

record SuricataMailClient_with_composer = SuricataMailClient +
  composer :: SuricataMessageComposer

definition subjectTemp :: "node list" where
  "subjectTemp = [TextNode ''Suricata: Registration confirmation'']"

definition messageTemp :: "node list" where
  "messageTemp =
     [TextNode ''Please confirm the registration on Suricata Talk website with click on this link '',
      FieldNode ''ConfirmationLink'']"

definition NewSuricataMailClient_with_composer ::
  "RegistryClient option \<Rightarrow> SuricataMailClient_with_composer" where
  "NewSuricataMailClient_with_composer disc =
     \<lparr>discoveryClient = disc,
      composer = \<lparr>SubjectTemplate = Some subjectTemp, MessageTemplate = Some messageTemp\<rparr>\<rparr>"

text \<open>
  \<^verbatim>\<open>SendMail\<close> of part\_000 (lines 70 to 99) uses neither the composer nor its \<^verbatim>\<open>subject\<close>
  and \<^verbatim>\<open>message\<close> arguments: the literal is
  \<^verbatim>\<open>Email{recipient, "Suricata: Registration confirmation", ""}\<close>.
\<close>

definition SendMail_part_000 ::
  "(Email \<Rightarrow> error + json) \<Rightarrow> (http_request \<Rightarrow> error option) \<Rightarrow> SuricataMailClient_with_composer
     \<Rightarrow> string \<Rightarrow> string \<Rightarrow> string \<Rightarrow> (error option \<times> http_request list) outcome" where
  "SendMail_part_000 Marshal Post client recipient subject message =
     (case resolveUrl client of
        Panics \<Rightarrow> Panics
      | BlocksForever \<Rightarrow> BlocksForever
      | Returns (serviceUrl, err) \<Rightarrow>
          if err \<noteq> None then Returns (err, [])
          else
            (let eMsg = \<lparr>Email.Recipient = recipient,
                         Email.Subject = ''Suricata: Registration confirmation'',
                         Email.Message = []\<rparr>
             in case Marshal eMsg of
                  Inl jsonError \<Rightarrow> Returns (err, [])
                | Inr out \<Rightarrow>
                    (let req = \<lparr>req_url = serviceUrl, req_contentType = HttpMIMEBodyType, req_body = out\<rparr>;
                         postErr = Post req
                     in if postErr \<noteq> None then Returns (postErr, [req])
                        else Returns (None, [req]))))"

text \<open>
  \<^verbatim>\<open>SendMail(recipient string, subject, message interface{})\<close> of the second listing of
  client.go renders both values with the client's composer; a composer with a nil
  template panics there.
\<close>

definition SendMail_second_listing ::
  "(string \<Rightarrow> 'd \<Rightarrow> error + string) \<Rightarrow> (Email \<Rightarrow> error + json) \<Rightarrow> (http_request \<Rightarrow> error option)
     \<Rightarrow> SuricataMailClient_with_composer \<Rightarrow> string \<Rightarrow> 'd \<Rightarrow> 'd
     \<Rightarrow> (error option \<times> http_request list) outcome" where
  "SendMail_second_listing ev Marshal Post client recipient subject message =
     (case resolveUrl client of
        Panics \<Rightarrow> Panics
      | BlocksForever \<Rightarrow> BlocksForever
      | Returns (serviceURL, err) \<Rightarrow>
          if err \<noteq> None then Returns (err, [])
          else
            (case ComposeSubject ev (composer client) subject of
               Panics \<Rightarrow> Panics
             | BlocksForever \<Rightarrow> BlocksForever
             | Returns composedSubject \<Rightarrow>
                 (case ComposeMessage ev (composer client) message of
                    Panics \<Rightarrow> Panics
                  | BlocksForever \<Rightarrow> BlocksForever
                  | Returns composedMessage \<Rightarrow>
                      (let eMsg = \<lparr>Email.Recipient = recipient, Email.Subject = composedSubject,
                                   Email.Message = composedMessage\<rparr>
                       in case Marshal eMsg of
                            Inl jsonError \<Rightarrow> Returns (err, [])
                          | Inr out \<Rightarrow>
                              (let req = \<lparr>req_url = serviceURL, req_contentType = HttpMIMEBodyType,
                                          req_body = out\<rparr>;
                                   postErr = Post req
                               in if postErr \<noteq> None then Returns (postErr, [req])
                                  else Returns (None, [req]))))))"

section \<open>The encoder behind the REST client\<close>

text \<open>
  Go's \<^verbatim>\<open>encoding/json\<close> is outside the repository. Its \<^verbatim>\<open>Marshal\<close> goes by the kind of
  the value: a string, a bool, an integer and nil are always encoded; a slice and a
  struct are encoded when each element and each exported field is, an unexported field
  being skipped; a channel and a function have no encoding and give an
  \<^verbatim>\<open>UnsupportedTypeError\<close>. Values are given by kind; a struct lists its fields by name, in
  the order of its declaration.

  A string that is not valid UTF-8 is not refused: the encoder reads it rune by rune as
  \<^verbatim>\<open>utf8.DecodeRuneInString\<close> does, and writes U+FFFD (the bytes EF BF BD) for every byte
  at which no well-formed rune starts. \<open>rune_len\<close> is the width of the well-formed rune at
  the head of a string, or 0: one byte below 80; C2 to DF with one continuation byte
  (80 to BF); E0 to EF with two, the first from A0 after E0 and up to 9F after ED;
  F0 to F4 with three, the first from 90 after F0 and up to 8F after F4. The document
  holds the string after this coercion; how its characters are escaped in the bytes of
  the body is not modelled.
\<close>

definition in_range :: "nat \<Rightarrow> nat \<Rightarrow> char \<Rightarrow> bool" where
  "in_range lo hi c = (lo \<le> of_char c \<and> of_char c \<le> hi)"

definition rune_len :: "string \<Rightarrow> nat" where
  "rune_len s =
     (case s of
        [] \<Rightarrow> 0
      | c0 # cs \<Rightarrow>
          if in_range 0 127 c0 then 1
          else if in_range 194 223 c0 then
            (case cs of c1 # _ \<Rightarrow> if in_range 128 191 c1 then 2 else 0 | _ \<Rightarrow> 0)
          else if in_range 224 239 c0 then
            (case cs of
               c1 # c2 # _ \<Rightarrow>
                 if in_range (if in_range 224 224 c0 then 160 else 128)
                             (if in_range 237 237 c0 then 159 else 191) c1
                    \<and> in_range 128 191 c2
                 then 3 else 0
             | _ \<Rightarrow> 0)
          else if in_range 240 244 c0 then
            (case cs of
               c1 # c2 # c3 # _ \<Rightarrow>
                 if in_range (if in_range 240 240 c0 then 144 else 128)
                             (if in_range 244 244 c0 then 143 else 191) c1
                    \<and> in_range 128 191 c2 \<and> in_range 128 191 c3
                 then 4 else 0
             | _ \<Rightarrow> 0)
          else 0)"

text \<open>
  \<open>coerce_from k s\<close> copies the \<open>k\<close> bytes that remain of a well-formed rune and then
  goes on rune by rune.
\<close>

fun coerce_from :: "nat \<Rightarrow> string \<Rightarrow> string" where
  "coerce_from k [] = []"
| "coerce_from 0 (c # cs) =
     (if rune_len (c # cs) = 0 then [CHR 0xEF, CHR 0xBF, CHR 0xBD] @ coerce_from 0 cs
      else c # coerce_from (rune_len (c # cs) - 1) cs)"
| "coerce_from (Suc k) (c # cs) = c # coerce_from k cs"

definition utf8_coerce :: "string \<Rightarrow> string" where
  "utf8_coerce s = coerce_from 0 s"


datatype go_value =
    GoNil
  | GoBool bool
  | GoInt int
  | GoString string
  | GoSlice "go_value list"
  | GoStruct "(string \<times> go_value) list"
  | GoChan
  | GoFunc

definition isExported :: "string \<Rightarrow> bool" where
  "isExported name =
     (case name of [] \<Rightarrow> False | c # _ \<Rightarrow> (65::nat) \<le> of_char c \<and> of_char c \<le> (90::nat))"

fun json_Marshal :: "go_value \<Rightarrow> error + json"
  and marshal_elems :: "go_value list \<Rightarrow> error + json list"
  and marshal_fields :: "(string \<times> go_value) list \<Rightarrow> error + (string \<times> json) list" where
  "json_Marshal GoNil = Inr JNull"
| "json_Marshal (GoBool b) = Inr (JBool b)"
| "json_Marshal (GoInt n) = Inr (JNumber n)"
| "json_Marshal (GoString s) = Inr (JString (utf8_coerce s))"
| "json_Marshal (GoSlice vs) =
     (case marshal_elems vs of Inl e \<Rightarrow> Inl e | Inr js \<Rightarrow> Inr (JArray js))"
| "json_Marshal (GoStruct fs) =
     (case marshal_fields fs of Inl e \<Rightarrow> Inl e | Inr js \<Rightarrow> Inr (JObject js))"
| "json_Marshal GoChan = Inl (ExternalError ''json: unsupported type: chan'')"
| "json_Marshal GoFunc = Inl (ExternalError ''json: unsupported type: func'')"
| "marshal_elems [] = Inr []"
| "marshal_elems (v # vs) =
     (case json_Marshal v of
        Inl e \<Rightarrow> Inl e
      | Inr j \<Rightarrow> (case marshal_elems vs of Inl e \<Rightarrow> Inl e | Inr js \<Rightarrow> Inr (j # js)))"
| "marshal_fields [] = Inr []"
| "marshal_fields ((name, v) # fs) =
     (if isExported name
      then (case json_Marshal v of
              Inl e \<Rightarrow> Inl e
            | Inr j \<Rightarrow> (case marshal_fields fs of Inl e \<Rightarrow> Inl e | Inr js \<Rightarrow> Inr ((name, j) # js)))
      else marshal_fields fs)"

text \<open>
  \<^verbatim>\<open>type Email struct { Recipient string; Subject string; Message string }\<close> as the encoder
  sees it, and \<^verbatim>\<open>json.Marshal\<close> at that type.
\<close>

definition Email_value :: "Email \<Rightarrow> go_value" where
  "Email_value e =
     GoStruct [(''Recipient'', GoString (Email.Recipient e)),
               (''Subject'', GoString (Email.Subject e)),
               (''Message'', GoString (Email.Message e))]"

definition Marshal_Email :: "Email \<Rightarrow> error + json" where
  "Marshal_Email e = json_Marshal (Email_value e)"

section \<open>Collaborators used in the examples\<close>

text \<open>
  \<^verbatim>\<open>FakeRegistryClient.ServicesByName\<close> of client\_test.go, a directory with no address
  and a directory that is down; a field lookup for data that is a struct of string
  fields (a missing field is the error \<^verbatim>\<open>text/template\<close> gives for a struct), and one for
  data that is a string (no field can be evaluated); a network that accepts every
  request; a provider that accepts every message and one that
  refuses every message, with the engine \<^verbatim>\<open>NewMailGun\<close> starts on each; a decoder that
  fails and leaves the envelope as it was.
\<close>

definition FakeRegistryClient :: RegistryClient where
  "FakeRegistryClient name = ([''127.0.0.1:3030''], None)"

definition EmptyRegistryClient :: RegistryClient where
  "EmptyRegistryClient name = ([], None)"

definition DownRegistryClient :: RegistryClient where
  "DownRegistryClient name = ([], Some (ExternalError ''etcd: cluster is unavailable''))"

definition struct_field :: "string \<Rightarrow> (string \<times> string) list \<Rightarrow> error + string" where
  "struct_field name fs =
     (case map_of fs name of
        None \<Rightarrow> Inl (ExternalError (''cannot evaluate field '' @ name))
      | Some v \<Rightarrow> Inr v)"

definition string_field :: "string \<Rightarrow> string \<Rightarrow> error + string" where
  "string_field name s = Inl (ExternalError (''cannot evaluate field '' @ name @ '' in type string''))"

definition accepting_Post :: "http_request \<Rightarrow> error option" where
  "accepting_Post req = None"

definition accepting_Mailgun :: "string \<Rightarrow> string \<Rightarrow> string \<Rightarrow> provider" where
  "accepting_Mailgun domain apiKey publicApiKey message = (''Queued. Thank you.'', ''id-1'', None)"


definition example_engine :: "MailGunMailer \<times> world" where
  "example_engine = NewMailGun accepting_Mailgun ''suricata.com'' ''key-1'' ''info@suricata.com''"



section \<open>Facts about the dispatch engine\<close>

lemma worker_receive_worker: "worker (worker_receive m w) = worker w"
  by (simp add: worker_receive_def Let_def split: prod.splits)

lemma worker_receive_sent:
  "sent (worker_receive m w) =
     sent w @ [NewMessage (mailStruct.Sender m) (mailStruct.Subject m) (mailStruct.Message m)
                 [mailStruct.Recipient m]]"
  by (simp add: worker_receive_def Let_def split: prod.splits)

lemma worker_receive_ctx_done: "ctx_done (worker_receive m w) = ctx_done w"
  by (simp add: worker_receive_def Let_def split: prod.splits)

lemma worker_done_sent: "sent (worker_done w) = sent w"
  by (simp add: worker_done_def)


lemma SendMail_running:
  assumes "sendChannel mgm \<noteq> None" and "worker w = Waiting" and "\<not> ctx_done w"
  shows "fst (MailGunMailer_SendMail mgm subject message recipient w) = Returns None"
    and "worker (snd (MailGunMailer_SendMail mgm subject message recipient w)) = Waiting"
    and "\<not> ctx_done (snd (MailGunMailer_SendMail mgm subject message recipient w))"
    and "sent (snd (MailGunMailer_SendMail mgm subject message recipient w)) =
           sent w @ [NewMessage (sender mgm) subject message [recipient]]"
  using assms
  by (simp_all add: MailGunMailer_SendMail_def worker_receive_worker worker_receive_sent
      worker_receive_ctx_done)

lemma SendMail_after_Close:
  assumes "sendChannel mgm \<noteq> None" and "ctx_done w \<or> worker w = Terminated"
  shows "fst (MailGunMailer_SendMail mgm subject message recipient w) = BlocksForever"
  using assms by (auto simp add: MailGunMailer_SendMail_def)

lemma submit_all_running:
  assumes "sendChannel mgm \<noteq> None" and "worker w = Waiting" and "\<not> ctx_done w"
  shows "fst (submit_all mgm msgs w) = map (\<lambda>_. Returns None) msgs
       \<and> sent (snd (submit_all mgm msgs w)) =
           sent w @ map (\<lambda>(subject, message, recipient).
                           NewMessage (sender mgm) subject message [recipient]) msgs"
  using assms
proof (induction msgs arbitrary: w)
  case Nil
  then show ?case by simp
next
  case (Cons t rest)
  obtain subject message recipient where t: "t = (subject, message, recipient)"
    by (cases t) auto
  let ?r = "MailGunMailer_SendMail mgm subject message recipient w"
  have w1: "worker (snd ?r) = Waiting"
    using Cons.prems by (rule SendMail_running(2))
  have c1: "\<not> ctx_done (snd ?r)"
    using Cons.prems by (rule SendMail_running(3))
  have r1: "fst ?r = Returns None"
    using Cons.prems by (rule SendMail_running(1))
  have s1: "sent (snd ?r) = sent w @ [NewMessage (sender mgm) subject message [recipient]]"
    using Cons.prems by (rule SendMail_running(4))
  from Cons.IH [OF Cons.prems(1) w1 c1] r1 s1 show ?case
    by (simp add: t case_prod_beta)
qed

lemma NewMailGun_started:
  "sendChannel (fst (NewMailGun nm domain apiKey sndr)) = Some senderChan"
  "sender (fst (NewMailGun nm domain apiKey sndr)) = sndr"
  "worker (snd (NewMailGun nm domain apiKey sndr)) = Waiting"
  "ctx_done (snd (NewMailGun nm domain apiKey sndr)) = False"
  "sent (snd (NewMailGun nm domain apiKey sndr)) = []"
  by (simp_all add: NewMailGun_def Let_def)




lemma example_engine_started:
  "sendChannel (fst example_engine) = Some senderChan"
  "sender (fst example_engine) = ''info@suricata.com''"
  "cancel (fst example_engine) = Some (\<lambda>w. w\<lparr>ctx_done := True\<rparr>)"
  "worker (snd example_engine) = Waiting"
  "ctx_done (snd example_engine) = False"
  "sent (snd example_engine) = []"
  by (simp_all add: example_engine_def NewMailGun_def Let_def)


section \<open>Facts about the client\<close>

lemma resolveUrl_Fake:
  "resolveUrl (NewSuricataMailClient (Some FakeRegistryClient)) = Returns (''http://127.0.0.1:3030'', None)"
  by (simp add: resolveUrl_def NewSuricataMailClient_def FakeRegistryClient_def)

text \<open>
  What the branch for a failed \<^verbatim>\<open>json.Marshal\<close> does for an encoder that fails: it returns
  the nil error of the resolution and makes no call of \<^verbatim>\<open>http.Post\<close>.
\<close>

lemma SendMail_marshal_error:
  assumes "resolveUrl client = Returns (serviceURL, None)"
    and "Marshal \<lparr>Email.Recipient = recipient, Email.Subject = subject, Email.Message = message\<rparr> = Inl jsonError"
  shows "SuricataMailClient_SendMail Marshal Post client recipient subject message = Returns (None, [])"
  using assms by (simp add: SuricataMailClient_SendMail_def)

lemma SendMail_resolved:
  assumes "resolveUrl client = Returns (serviceURL, None)"
    and "Marshal \<lparr>Email.Recipient = recipient, Email.Subject = subject, Email.Message = message\<rparr>
           = Inr out"
  shows "SuricataMailClient_SendMail Marshal Post client recipient subject message =
     Returns (Post \<lparr>req_url = serviceURL, req_contentType = ''application/json'', req_body = out\<rparr>,
              [\<lparr>req_url = serviceURL, req_contentType = ''application/json'', req_body = out\<rparr>])"
  using assms
  by (simp add: SuricataMailClient_SendMail_def HttpMIMEBodyType_def Let_def)

lemma part_000_hard_coded:
  assumes "resolveUrl client = Returns (serviceUrl, None)"
    and "Marshal \<lparr>Email.Recipient = recipient,
                   Email.Subject = ''Suricata: Registration confirmation'',
                   Email.Message = []\<rparr> = Inr out"
  shows "SendMail_part_000 Marshal Post client recipient subject message =
     Returns (Post \<lparr>req_url = serviceUrl, req_contentType = ''application/json'', req_body = out\<rparr>,
              [\<lparr>req_url = serviceUrl, req_contentType = ''application/json'', req_body = out\<rparr>])"
  using assms
  by (simp add: SendMail_part_000_def HttpMIMEBodyType_def Let_def)

lemma second_listing_composes:
  assumes "resolveUrl client = Returns (serviceURL, None)"
    and "ComposeSubject ev (composer client) subject = Returns composedSubject"
    and "ComposeMessage ev (composer client) message = Returns composedMessage"
    and "Marshal \<lparr>Email.Recipient = recipient, Email.Subject = composedSubject,
                   Email.Message = composedMessage\<rparr> = Inr out"
  shows "SendMail_second_listing ev Marshal Post client recipient subject message =
     Returns (Post \<lparr>req_url = serviceURL, req_contentType = ''application/json'', req_body = out\<rparr>,
              [\<lparr>req_url = serviceURL, req_contentType = ''application/json'', req_body = out\<rparr>])"
  using assms
  by (simp add: SendMail_second_listing_def HttpMIMEBodyType_def Let_def)

text \<open>The encoder on an \<^verbatim>\<open>Email\<close>, and the coercion on strings of ASCII.\<close>

lemma Marshal_Email_ok:
  "Marshal_Email e =
     Inr (JObject [(''Recipient'', JString (utf8_coerce (Email.Recipient e))),
                   (''Subject'', JString (utf8_coerce (Email.Subject e))),
                   (''Message'', JString (utf8_coerce (Email.Message e)))])"
  by (simp add: Marshal_Email_def Email_value_def isExported_def)

lemma coerce_ascii: "\<forall>c\<in>set s. of_char c < (128::nat) \<Longrightarrow> utf8_coerce s = s"
  unfolding utf8_coerce_def
  by (induction s) (auto simp add: rune_len_def in_range_def)

lemma coerce_invalid_byte: "utf8_coerce [CHR 0xFF] = [CHR 0xEF, CHR 0xBF, CHR 0xBD]"
  by (simp add: utf8_coerce_def rune_len_def in_range_def)

lemma Execute_buf:
  "Execute ev t buf data = (buf @ fst (Execute ev t [] data), snd (Execute ev t [] data))"
proof (induction t arbitrary: buf)
  case Nil
  then show ?case by simp
next
  case (Cons n ns)
  show ?case
  proof (cases n)
    case (TextNode s)
    from Cons.IH [of "buf @ s"] Cons.IH [of s] show ?thesis
      by (simp add: TextNode)
  next
    case (FieldNode f)
    show ?thesis
    proof (cases "ev f data")
      case (Inl e)
      then show ?thesis by (simp add: FieldNode)
    next
      case (Inr s)
      from Cons.IH [of "buf @ s"] Cons.IH [of s] show ?thesis
        by (simp add: FieldNode Inr)
    qed
  qed
qed

lemma Execute_failure:
  "snd (Execute ev t [] data) = Some e \<Longrightarrow>
   \<exists>before f rest. t = before @ FieldNode f # rest \<and> ev f data = Inl e
      \<and> Execute ev before [] data = (fst (Execute ev t [] data), None)"
proof (induction t)
  case Nil
  then show ?case by simp
next
  case (Cons n ns)
  show ?case
  proof (cases n)
    case (TextNode s)
    have split: "Execute ev ns s data = (s @ fst (Execute ev ns [] data), snd (Execute ev ns [] data))"
      by (rule Execute_buf)
    with Cons.prems have "snd (Execute ev ns [] data) = Some e"
      by (simp add: TextNode)
    from Cons.IH [OF this] obtain before f rest where
      b: "ns = before @ FieldNode f # rest" "ev f data = Inl e"
         "Execute ev before [] data = (fst (Execute ev ns [] data), None)"
      by blast
    have "Execute ev (n # before) [] data = (fst (Execute ev (n # ns) [] data), None)"
      using b(3) split Execute_buf [of ev before s data] by (simp add: TextNode)
    with b(1,2) show ?thesis
      by (metis append_Cons)
  next
    case (FieldNode g)
    show ?thesis
    proof (cases "ev g data")
      case (Inl e')
      with Cons.prems have "e' = e" by (simp add: FieldNode)
      with Inl have "n # ns = [] @ FieldNode g # ns \<and> ev g data = Inl e
          \<and> Execute ev [] [] data = (fst (Execute ev (n # ns) [] data), None)"
        by (simp add: FieldNode)
      then show ?thesis by blast
    next
      case (Inr s)
      have split: "Execute ev ns s data = (s @ fst (Execute ev ns [] data), snd (Execute ev ns [] data))"
        by (rule Execute_buf)
      with Cons.prems have "snd (Execute ev ns [] data) = Some e"
        by (simp add: FieldNode Inr)
      from Cons.IH [OF this] obtain before f rest where
        b: "ns = before @ FieldNode f # rest" "ev f data = Inl e"
           "Execute ev before [] data = (fst (Execute ev ns [] data), None)"
        by blast
      have "Execute ev (n # before) [] data = (fst (Execute ev (n # ns) [] data), None)"
        using b(3) split Execute_buf [of ev before s data] by (simp add: FieldNode Inr)
      with b(1,2) show ?thesis
        by (metis append_Cons)
    qed
  qed
qed

text \<open>
  A composer whose template pointer is nil does not return: \<^verbatim>\<open>Execute\<close> dereferences it.
\<close>

lemma Compose_nil_template:
  "ComposeSubject ev (NewMailComposer None other) data = Panics"
  "ComposeMessage ev (NewMailComposer other None) data = Panics"
  by (simp_all add: ComposeSubject_def ComposeMessage_def NewMailComposer_def)

section \<open>The claims\<close>

text \<open>
  C1. A submission is a call \<^verbatim>\<open>SendMail(subject, message, recipient)\<close> that hands its
  message to the worker, that is, one that returns nil. For every mailer and every state
  of the engine, such a call makes the worker call the provider exactly once, with the
  engine's configured sender as sender, the submitted subject as subject, the submitted
  message as body and the submitted recipient as the one recipient; a call that does not
  hand its message over leaves the provider uncalled. On an engine started by
  \<^verbatim>\<open>NewMailGun\<close>, every call of any list of submissions returns nil, and the provider has
  been called once per submission, in their order.
\<close>

theorem C1_one_send_per_submission:
  "(fst (MailGunMailer_SendMail mgm subject message recipient w) = Returns None \<longrightarrow>
      sent (snd (MailGunMailer_SendMail mgm subject message recipient w)) =
        sent w @ [\<lparr>msg_from = sender mgm, msg_subject = subject, msg_text = message,
                    msg_to = [recipient]\<rparr>])
   \<and> (fst (MailGunMailer_SendMail mgm subject message recipient w) \<noteq> Returns None \<longrightarrow>
        sent (snd (MailGunMailer_SendMail mgm subject message recipient w)) = sent w)
   \<and> fst (submit_all (fst (NewMailGun nm domain apiKey sndr)) msgs
            (snd (NewMailGun nm domain apiKey sndr))) = map (\<lambda>_. Returns None) msgs
   \<and> sent (snd (submit_all (fst (NewMailGun nm domain apiKey sndr)) msgs
                  (snd (NewMailGun nm domain apiKey sndr)))) =
       map (\<lambda>(subject, message, recipient).
              \<lparr>msg_from = sndr, msg_subject = subject, msg_text = message, msg_to = [recipient]\<rparr>)
           msgs"
proof -
  let ?mgm = "fst (NewMailGun nm domain apiKey sndr)"
  let ?w = "snd (NewMailGun nm domain apiKey sndr)"
  have step: "fst (MailGunMailer_SendMail mgm subject message recipient w) = Returns None \<longrightarrow>
      sent (snd (MailGunMailer_SendMail mgm subject message recipient w)) =
        sent w @ [\<lparr>msg_from = sender mgm, msg_subject = subject, msg_text = message,
                    msg_to = [recipient]\<rparr>]"
    by (simp add: MailGunMailer_SendMail_def worker_receive_sent NewMessage_def)
  have skip: "fst (MailGunMailer_SendMail mgm subject message recipient w) \<noteq> Returns None \<longrightarrow>
      sent (snd (MailGunMailer_SendMail mgm subject message recipient w)) = sent w"
    by (simp add: MailGunMailer_SendMail_def worker_done_sent)
  have "sendChannel ?mgm \<noteq> None" and "worker ?w = Waiting" and "\<not> ctx_done ?w"
    by (simp_all add: NewMailGun_started)
  from submit_all_running [OF this, of msgs]
  have run: "fst (submit_all ?mgm msgs ?w) = map (\<lambda>_. Returns None) msgs
      \<and> sent (snd (submit_all ?mgm msgs ?w)) =
          map (\<lambda>(subject, message, recipient).
                 \<lparr>msg_from = sndr, msg_subject = subject, msg_text = message, msg_to = [recipient]\<rparr>)
              msgs"
    by (simp add: NewMailGun_started NewMessage_def)
  from step skip run show ?thesis by blast
qed

text \<open>
  The witness: one submission on a started engine, whose hand-off succeeds, and one after
  the engine was closed and its worker returned, whose hand-off never does.
\<close>

theorem C1_one_send_per_submission_witness:
  "fst (MailGunMailer_SendMail (fst example_engine) ''Hi'' ''Hello'' ''a@b.com'' (snd example_engine))
     = Returns None
   \<and> sent (snd (MailGunMailer_SendMail (fst example_engine) ''Hi'' ''Hello'' ''a@b.com''
                  (snd example_engine)))
       = [\<lparr>msg_from = ''info@suricata.com'', msg_subject = ''Hi'', msg_text = ''Hello'',
           msg_to = [''a@b.com'']\<rparr>]
   \<and> fst (MailGunMailer_SendMail (fst example_engine) ''Hi'' ''Hello'' ''a@b.com''
            (worker_done ((snd example_engine)\<lparr>ctx_done := True\<rparr>))) \<noteq> Returns None
   \<and> sent (snd (MailGunMailer_SendMail (fst example_engine) ''Hi'' ''Hello'' ''a@b.com''
                  (worker_done ((snd example_engine)\<lparr>ctx_done := True\<rparr>)))) = []"
  using C1_one_send_per_submission [of "fst example_engine" "''Hi''" "''Hello''" "''a@b.com''"
      "snd example_engine"]
    C1_one_send_per_submission [of "fst example_engine" "''Hi''" "''Hello''" "''a@b.com''"
      "worker_done ((snd example_engine)\<lparr>ctx_done := True\<rparr>)"]
  by (simp add: example_engine_started MailGunMailer_SendMail_def worker_done_def)

text \<open>
  C3, as stated, fails. The call of client\_test.go,
  \<^verbatim>\<open>SendMail("sohlich@gmail.com", "Subj", "Message")\<close>, posts an \<^verbatim>\<open>Email\<close> whose subject is
  \<^verbatim>\<open>Subj\<close> and whose message is \<^verbatim>\<open>Message\<close>, while a composer with the repository's two
  templates renders, from the same two values, the fixed subject line and the message
  text up to its missing field.
\<close>

theorem C3_counterexample:
  "SuricataMailClient_SendMail Marshal_Email accepting_Post
     (NewSuricataMailClient (Some FakeRegistryClient)) ''sohlich@gmail.com'' ''Subj'' ''Message''
   = Returns (None,
       [\<lparr>req_url = ''http://127.0.0.1:3030'', req_contentType = ''application/json'',
         req_body = JObject [(''Recipient'', JString ''sohlich@gmail.com''),
                             (''Subject'', JString ''Subj''),
                             (''Message'', JString ''Message'')]\<rparr>])
   \<and> ComposeSubject string_field (NewMailComposer (Some subjectTemp) (Some messageTemp)) ''Subj''
       = Returns ''Suricata: Registration confirmation''
   \<and> ComposeMessage string_field (NewMailComposer (Some subjectTemp) (Some messageTemp)) ''Message''
       = Returns ''Please confirm the registration on Suricata Talk website with click on this link ''"
proof -
  have "Marshal_Email \<lparr>Email.Recipient = ''sohlich@gmail.com'', Email.Subject = ''Subj'',
                        Email.Message = ''Message''\<rparr>
      = Inr (JObject [(''Recipient'', JString ''sohlich@gmail.com''),
                      (''Subject'', JString ''Subj''),
                      (''Message'', JString ''Message'')])"
    by (simp add: Marshal_Email_ok coerce_ascii)
  from SendMail_resolved [where Marshal = Marshal_Email and Post = accepting_Post,
      OF resolveUrl_Fake this] show ?thesis
    by (simp add: accepting_Post_def ComposeSubject_def ComposeMessage_def NewMailComposer_def
        subjectTemp_def messageTemp_def string_field_def)
qed

text \<open>
  C3, amended. Neither transport client renders a template: the \<^verbatim>\<open>Email\<close> each of them
  sends out has the caller's recipient, subject and message as its three fields. The
  REST client, once the address is resolved, gives this \<^verbatim>\<open>Email\<close> to the encoder, makes
  one call of \<^verbatim>\<open>http.Post\<close> with the encoder's output as body and returns the error of
  that call; the NATS client makes one call of \<^verbatim>\<open>Publish\<close> with this \<^verbatim>\<open>Email\<close> on the topic
  \<^verbatim>\<open>mail\<close> and returns its error.
\<close>

theorem C3_arguments_not_rendered:
  "(resolveUrl client = Returns (serviceURL, None)
      \<and> Marshal \<lparr>Email.Recipient = recipient, Email.Subject = subject, Email.Message = message\<rparr>
          = Inr out \<longrightarrow>
      SuricataMailClient_SendMail Marshal Post client recipient subject message =
        Returns (Post \<lparr>req_url = serviceURL, req_contentType = ''application/json'', req_body = out\<rparr>,
                 [\<lparr>req_url = serviceURL, req_contentType = ''application/json'', req_body = out\<rparr>]))
   \<and> NatsMailClient_SendMail nats recipient subject message =
       (encodedConn nats ''mail''
          \<lparr>Email.Recipient = recipient, Email.Subject = subject, Email.Message = message\<rparr>,
        [(''mail'',
          \<lparr>Email.Recipient = recipient, Email.Subject = subject, Email.Message = message\<rparr>)])"
  by (simp add: SendMail_resolved NatsMailClient_SendMail_def MailServiceType_def Let_def)

text \<open>
  The witness: the directory of client\_test.go and Go's encoder, on three strings of
  ASCII.
\<close>

theorem C3_arguments_not_rendered_witness:
  "resolveUrl (NewSuricataMailClient (Some FakeRegistryClient)) = Returns (''http://127.0.0.1:3030'', None)
   \<and> Marshal_Email \<lparr>Email.Recipient = ''a@b.com'', Email.Subject = ''Hi'', Email.Message = ''Hello''\<rparr>
       = Inr (JObject [(''Recipient'', JString ''a@b.com''), (''Subject'', JString ''Hi''),
                       (''Message'', JString ''Hello'')])
   \<and> SuricataMailClient_SendMail Marshal_Email accepting_Post
        (NewSuricataMailClient (Some FakeRegistryClient)) ''a@b.com'' ''Hi'' ''Hello'' =
       Returns (None,
         [\<lparr>req_url = ''http://127.0.0.1:3030'', req_contentType = ''application/json'',
           req_body = JObject [(''Recipient'', JString ''a@b.com''),
                               (''Subject'', JString ''Hi''),
                               (''Message'', JString ''Hello'')]\<rparr>])"
  using C3_arguments_not_rendered [of "NewSuricataMailClient (Some FakeRegistryClient)"
      "''http://127.0.0.1:3030''" Marshal_Email "''a@b.com''" "''Hi''" "''Hello''"
      "JObject [(''Recipient'', JString ''a@b.com''), (''Subject'', JString ''Hi''),
                (''Message'', JString ''Hello'')]" accepting_Post]
  by (simp add: resolveUrl_Fake accepting_Post_def Marshal_Email_ok coerce_ascii)




text \<open>
  C5. \<^verbatim>\<open>resolveUrl\<close> on a client with a directory: when the directory call succeeds with
  an empty list the result is the empty address with \<^verbatim>\<open>ErrMailServiceNotFound\<close>; when the
  directory call fails, the result is the empty address with that very error.
\<close>

theorem C5_resolveUrl_errors:
  "discoveryClient client = Some ServicesByName \<Longrightarrow>
     (ServicesByName MailServiceType = ([], None) \<longrightarrow>
        resolveUrl client = Returns ([], Some ErrMailServiceNotFound))
   \<and> (\<forall>addresses e. ServicesByName MailServiceType = (addresses, Some e) \<longrightarrow>
        resolveUrl client = Returns ([], Some e))"
  by (simp add: resolveUrl_def)

theorem C5_resolveUrl_errors_witness:
  "resolveUrl (NewSuricataMailClient (Some EmptyRegistryClient)) = Returns ([], Some ErrMailServiceNotFound)
   \<and> resolveUrl (NewSuricataMailClient (Some DownRegistryClient))
       = Returns ([], Some (ExternalError ''etcd: cluster is unavailable''))"
  using C5_resolveUrl_errors [of "NewSuricataMailClient (Some EmptyRegistryClient)" EmptyRegistryClient]
    C5_resolveUrl_errors [of "NewSuricataMailClient (Some DownRegistryClient)" DownRegistryClient]
  by (simp add: NewSuricataMailClient_def EmptyRegistryClient_def DownRegistryClient_def)

text \<open>
  C6. When the directory answers the name \<^verbatim>\<open>mail\<close> with a non-empty list and no error,
  \<^verbatim>\<open>resolveUrl\<close> returns \<^verbatim>\<open>http://\<close> followed by the first address of the list, and no
  error. The witness is the directory of client\_test.go, whose list is
  \<^verbatim>\<open>127.0.0.1:3030\<close>.
\<close>

theorem C6_resolveUrl_first_address:
  "discoveryClient client = Some ServicesByName \<Longrightarrow>
   ServicesByName ''mail'' = (address # others, None) \<Longrightarrow>
   resolveUrl client = Returns (''http://'' @ address, None)"
  by (simp add: resolveUrl_def MailServiceType_def)

theorem C6_resolveUrl_first_address_witness:
  "discoveryClient (NewSuricataMailClient (Some FakeRegistryClient)) = Some FakeRegistryClient
   \<and> FakeRegistryClient ''mail'' = ([''127.0.0.1:3030''], None)
   \<and> resolveUrl (NewSuricataMailClient (Some FakeRegistryClient)) = Returns (''http://127.0.0.1:3030'', None)"
  using C6_resolveUrl_first_address [of "NewSuricataMailClient (Some FakeRegistryClient)"
      FakeRegistryClient "''127.0.0.1:3030''" "[]"]
  by (simp add: NewSuricataMailClient_def FakeRegistryClient_def)

text \<open>
  C7. For every data value and every parsed template, \<^verbatim>\<open>ComposeSubject\<close> and
  \<^verbatim>\<open>ComposeMessage\<close> return a string, the content of the buffer after \<^verbatim>\<open>Execute\<close>, and
  never the error. When the execution fails, it fails at a field action, and the string
  returned is what the nodes before that action rendered: nothing, or a part of the text.
\<close>

theorem C7_compose_never_fails:
  "ComposeSubject ev (NewMailComposer (Some t) other) data = Returns (fst (Execute ev t [] data))
   \<and> ComposeMessage ev (NewMailComposer other (Some t)) data = Returns (fst (Execute ev t [] data))
   \<and> (\<forall>e. snd (Execute ev t [] data) = Some e \<longrightarrow>
         (\<exists>before f rest. t = before @ FieldNode f # rest \<and> ev f data = Inl e
            \<and> Execute ev before [] data = (fst (Execute ev t [] data), None)))"
  using Execute_failure [of ev t data]
  by (simp add: ComposeSubject_def ComposeMessage_def NewMailComposer_def case_prod_beta)

text \<open>
  The witness: the message template on a struct without the field gives the text up to
  the field; a template that starts with a missing field gives the empty string; and the
  case of \<^verbatim>\<open>TestMailComposer\<close>, where the field is there, gives the whole message.
\<close>

theorem C7_compose_never_fails_witness:
  "snd (Execute struct_field messageTemp [] []) = Some (ExternalError ''cannot evaluate field ConfirmationLink'')
   \<and> ComposeMessage struct_field (NewMailComposer (Some subjectTemp) (Some messageTemp)) []
       = Returns ''Please confirm the registration on Suricata Talk website with click on this link ''
   \<and> ComposeSubject struct_field (NewMailComposer (Some [FieldNode ''Name'']) None) []
       = Returns []
   \<and> ComposeMessage struct_field (NewMailComposer (Some subjectTemp) (Some messageTemp))
        [(''ConfirmationLink'', ''http://127.0.0.1:8080/confirm'')]
       = Returns ''Please confirm the registration on Suricata Talk website with click on this link http://127.0.0.1:8080/confirm''"
  using C7_compose_never_fails [of struct_field messageTemp "Some subjectTemp" "[]"]
    C7_compose_never_fails [of struct_field "[FieldNode ''Name'']" None "[]"]
    C7_compose_never_fails [of struct_field messageTemp "Some subjectTemp"
      "[(''ConfirmationLink'', ''http://127.0.0.1:8080/confirm'')]"]
  by (simp add: messageTemp_def struct_field_def)






text \<open>
  C10. Encoding an \<^verbatim>\<open>Email\<close> never fails: it is a struct of three exported string fields,
  and the encoder has an output for it. Hence what \<^verbatim>\<open>SendMail\<close> returns is decided by the
  resolution and the post alone: the panic of a nil directory, the resolution's error
  with no call of \<^verbatim>\<open>http.Post\<close>, or the result of the one call of \<^verbatim>\<open>http.Post\<close> with the
  encoder's output as body.
\<close>

theorem C10_marshal_never_fails:
  "(\<exists>out. Marshal_Email e = Inr out)
   \<and> (\<exists>out. Marshal_Email
               \<lparr>Email.Recipient = recipient, Email.Subject = subject, Email.Message = message\<rparr>
             = Inr out
        \<and> SuricataMailClient_SendMail Marshal_Email Post client recipient subject message =
           (case resolveUrl client of
              Panics \<Rightarrow> Panics
            | BlocksForever \<Rightarrow> BlocksForever
            | Returns (serviceURL, Some resolveErr) \<Rightarrow> Returns (Some resolveErr, [])
            | Returns (serviceURL, None) \<Rightarrow>
                Returns (Post \<lparr>req_url = serviceURL, req_contentType = ''application/json'',
                                req_body = out\<rparr>,
                         [\<lparr>req_url = serviceURL, req_contentType = ''application/json'',
                           req_body = out\<rparr>])))"
proof -
  obtain out where out:
    "Marshal_Email \<lparr>Email.Recipient = recipient, Email.Subject = subject, Email.Message = message\<rparr>
       = Inr out"
    by (simp add: Marshal_Email_ok)
  have "SuricataMailClient_SendMail Marshal_Email Post client recipient subject message =
      (case resolveUrl client of
         Panics \<Rightarrow> Panics
       | BlocksForever \<Rightarrow> BlocksForever
       | Returns (serviceURL, Some resolveErr) \<Rightarrow> Returns (Some resolveErr, [])
       | Returns (serviceURL, None) \<Rightarrow>
           Returns (Post \<lparr>req_url = serviceURL, req_contentType = ''application/json'',
                           req_body = out\<rparr>,
                    [\<lparr>req_url = serviceURL, req_contentType = ''application/json'',
                      req_body = out\<rparr>]))"
  proof (cases "resolveUrl client")
    case (Returns p)
    obtain serviceURL err where p: "p = (serviceURL, err)" by (cases p)
    show ?thesis
    proof (cases err)
      case None
      with Returns p out show ?thesis by (simp add: SendMail_resolved)
    next
      case (Some resolveErr)
      with Returns p show ?thesis by (simp add: SuricataMailClient_SendMail_def)
    qed
  qed (simp_all add: SuricataMailClient_SendMail_def)
  with out show ?thesis
    by (auto simp add: Marshal_Email_ok)
qed

end
